theory Spec2Isabelle
  imports Complex_Main
begin

section \<open>JavaScript values and objects\<close>

text \<open>
  The state of \<^verbatim>\<open>src/App.tsx\<close> is a list of canvas elements, a selected id, a list of
  snapshots and a cursor. An element is a plain JavaScript object: \<^verbatim>\<open>addElement\<close> spreads
  a payload of type \<^verbatim>\<open>any\<close> into it and \<^verbatim>\<open>updateElement\<close> spreads a partial element, so
  the set of properties is open and an object is modelled as a finite map from property
  names to values. Property values are the primitives the source puts there (numbers,
  strings) together with the other primitives a payload may carry. A payload and the
  partial element of an update are such objects themselves.

  A JavaScript number is an IEEE 754 binary64 value. \<open>JNum r\<close> is the finite double
  whose value is the real \<open>r\<close> (the two zeros are one value, as they are for
  \<^verbatim>\<open>===\<close>), \<open>JInfinity\<close> and \<open>JNegInfinity\<close> are the infinities and \<open>JNaN\<close> is NaN.
  The source writes the literals 0, 1, 20, 100, 200 and 300, which are doubles, adds 1 to
  an array length (exact: a length is below \<open>2 ^ 32\<close>) and adds 20 to a coordinate, which
  rounds: that sum is \<open>fl64\<close> of the real sum.
\<close>

datatype jsval =
  JUndefined | JNull | JBool bool | JNum real | JInfinity | JNegInfinity | JNaN | JStr string

type_synonym obj = "string \<rightharpoonup> jsval"

text \<open>Reading a property: an absent property reads as \<^verbatim>\<open>undefined\<close>.\<close>

definition js_get :: "obj \<Rightarrow> string \<Rightarrow> jsval" where
  "js_get ob k = (case ob k of None \<Rightarrow> JUndefined | Some v \<Rightarrow> v)"

text \<open>Truthiness, as \<^verbatim>\<open>!v\<close> and \<^verbatim>\<open>if (v)\<close> test it.\<close>

fun truthy :: "jsval \<Rightarrow> bool" where
  "truthy JUndefined = False"
| "truthy JNull = False"
| "truthy (JBool b) = b"
| "truthy (JNum r) = (r \<noteq> 0)"
| "truthy JInfinity = True"
| "truthy JNegInfinity = True"
| "truthy JNaN = False"
| "truthy (JStr s) = (s \<noteq> [])"

text \<open>Strict equality \<^verbatim>\<open>===\<close> on primitives: equal values, and NaN equals nothing.\<close>

definition strict_eq :: "jsval \<Rightarrow> jsval \<Rightarrow> bool" where
  "strict_eq a b = (a = b \<and> a \<noteq> JNaN)"

text \<open>
  Rounding a real to binary64, round to nearest, ties to even. \<open>bits n\<close> is the number
  of binary digits of \<open>n\<close>. \<open>binade x\<close> is the integer \<open>E\<close> with
  \<open>2 ^ E \<le> \<bar>x\<bar> < 2 ^ (E + 1)\<close>, for \<open>x \<noteq> 0\<close>: one less than the number of digits of
  the integer part when \<open>1 \<le> \<bar>x\<bar>\<close>, and otherwise \<open>- k\<close> for the least \<open>k\<close> with
  \<open>1 / \<bar>x\<bar> \<le> 2 ^ k\<close>. A double in that binade is a multiple
  of \<open>2 ^ (E - 52)\<close> (53 significant bits), and of \<open>2 ^ (- 1074)\<close> in the subnormal
  range; \<open>fl64 x\<close> is the nearest such multiple, and an infinity when that multiple
  reaches \<open>2 ^ 1024\<close>.
\<close>

function bits :: "int \<Rightarrow> int" where
  "bits n = (if n \<le> 0 then 0 else 1 + bits (n div 2))"
  by pat_completeness auto
termination
  by (relation "measure nat") auto

definition binade :: "real \<Rightarrow> int" where
  "binade x =
     (if 1 \<le> \<bar>x\<bar> then bits \<lfloor>\<bar>x\<bar>\<rfloor> - 1 else - bits (\<lceil>1 / \<bar>x\<bar>\<rceil> - 1))"

definition round_half_even :: "real \<Rightarrow> int" where
  "round_half_even q =
     (let f = \<lfloor>q\<rfloor>; d = q - of_int f
      in if d < 1 / 2 then f else if 1 / 2 < d then f + 1 else if even f then f else f + 1)"

definition fl64 :: "real \<Rightarrow> jsval" where
  "fl64 x =
     (if x = 0 then JNum 0
      else
        let e = max (binade x - 52) (- 1074);
            y = of_int (round_half_even (x / 2 powi e)) * 2 powi e
        in if 2 ^ 1024 \<le> \<bar>y\<bar> then (if 0 < x then JInfinity else JNegInfinity)
           else JNum y)"

text \<open>
  The expression \<^verbatim>\<open>v + 20\<close> of \<^verbatim>\<open>duplicateElement\<close>: the rounded sum on a number,
  concatenation with the text \<^verbatim>\<open>20\<close> on a string, and the numeric conversions of the
  other primitives (\<^verbatim>\<open>null\<close> is 0, \<^verbatim>\<open>true\<close> is 1, \<^verbatim>\<open>undefined\<close> is NaN).
\<close>

fun js_add20 :: "jsval \<Rightarrow> jsval" where
  "js_add20 (JNum r) = fl64 (r + 20)"
| "js_add20 JInfinity = JInfinity"
| "js_add20 JNegInfinity = JNegInfinity"
| "js_add20 (JStr s) = JStr (s @ ''20'')"
| "js_add20 JNull = JNum 20"
| "js_add20 (JBool b) = JNum (if b then 21 else 20)"
| "js_add20 JUndefined = JNaN"
| "js_add20 JNaN = JNaN"

text \<open>
  \<^verbatim>\<open>xs.slice(0, e)\<close>: a negative end counts from the end of the array, and the end is
  clamped to the array. \<^verbatim>\<open>xs[i]\<close>: an index outside the array reads \<^verbatim>\<open>undefined\<close>,
  here \<open>None\<close>.
\<close>

definition js_slice0 :: "'a list \<Rightarrow> int \<Rightarrow> 'a list" where
  "js_slice0 xs e =
     (let n = int (length xs);
          k = (if e < 0 then max (n + e) 0 else min e n)
      in take (nat k) xs)"

definition js_nth :: "'a list \<Rightarrow> int \<Rightarrow> 'a option" where
  "js_nth xs i = (if 0 \<le> i \<and> i < int (length xs) then Some (xs ! nat i) else None)"

section \<open>The state of the App component\<close>

text \<open>
  The four \<^verbatim>\<open>useState\<close> cells the element operations read and write. \<^verbatim>\<open>fileName\<close> and
  \<^verbatim>\<open>zoom\<close> are written by no element or history operation and are left out.
  \<^verbatim>\<open>selectedId\<close> is \<^verbatim>\<open>string | null\<close> in the source; it is set from \<^verbatim>\<open>newElement.id\<close>,
  which a payload can replace, so it holds a value.
\<close>

record app_state =
  elements :: "obj list"
  selectedId :: jsval
  history :: "obj list list"
  historyIndex :: int

text \<open>
  The values \<^verbatim>\<open>ElementType.TEXT\<close>, \<^verbatim>\<open>ElementType.SHAPE\<close> and \<^verbatim>\<open>ShapeType.RECTANGLE\<close> come
  from \<^verbatim>\<open>./types\<close>, whose text is not part of the sources at hand. The operations take
  them as a parameter.
\<close>

record types_ts =
  ElementType_TEXT :: jsval
  ElementType_SHAPE :: jsval
  ShapeType_RECTANGLE :: jsval

datatype error = TypeError

definition initial :: app_state where
  "initial = \<lparr>elements = [], selectedId = JNull, history = [], historyIndex = - 1\<rparr>"

subsection \<open>History\<close>

definition addToHistory :: "obj list \<Rightarrow> app_state \<Rightarrow> app_state" where
  "addToHistory newElements s =
     (let newHistory = js_slice0 (history s) (historyIndex s + 1) @ [newElements]
      in s\<lparr>history := newHistory, historyIndex := int (length newHistory) - 1\<rparr>)"

text \<open>The mount effect ("Initial load"), and the state after it has run.\<close>

definition mount :: "app_state \<Rightarrow> app_state" where
  "mount s = (if length (history s) = 0 then addToHistory [] s else s)"

definition startup :: app_state where
  "startup = mount initial"

text \<open>
  \<^verbatim>\<open>handleUndo\<close> and \<^verbatim>\<open>handleRedo\<close>. The answer of \<^verbatim>\<open>window.confirm\<close> is the argument
  \<open>confirm\<close>; the dialog is only consulted when the history has more than one entry.
  When the snapshot read is outside the array, \<^verbatim>\<open>setElements(undefined)\<close> makes the
  next render fail in \<^verbatim>\<open>elements.find\<close> with a TypeError, which is the result \<open>Inl\<close>.
\<close>

definition handleUndo :: "bool \<Rightarrow> app_state \<Rightarrow> error + app_state" where
  "handleUndo confirm s =
     (if historyIndex s > 0 then
        if int (length (history s)) > 1 \<and> \<not> confirm then Inr s
        else (case js_nth (history s) (historyIndex s - 1) of
                None \<Rightarrow> Inl TypeError
              | Some snap \<Rightarrow> Inr (s\<lparr>historyIndex := historyIndex s - 1, elements := snap\<rparr>))
      else Inr s)"

definition handleRedo :: "bool \<Rightarrow> app_state \<Rightarrow> error + app_state" where
  "handleRedo confirm s =
     (if historyIndex s < int (length (history s)) - 1 then
        if int (length (history s)) > 1 \<and> \<not> confirm then Inr s
        else (case js_nth (history s) (historyIndex s + 1) of
                None \<Rightarrow> Inl TypeError
              | Some snap \<Rightarrow> Inr (s\<lparr>historyIndex := historyIndex s + 1, elements := snap\<rparr>))
      else Inr s)"

subsection \<open>Element management\<close>

text \<open>
  \<^verbatim>\<open>addElement\<close>. \<open>newId\<close> is the string \<^verbatim>\<open>generateId()\<close> returned (a random string, so
  nothing is known about it). \<open>newElement0\<close> is the object literal with the payload
  spread last; the two \<^verbatim>\<open>if\<close> statements then assign the type-specific properties.
\<close>

definition newElement0 :: "types_ts \<Rightarrow> string \<Rightarrow> jsval \<Rightarrow> obj \<Rightarrow> nat \<Rightarrow> obj" where
  "newElement0 T newId type payload n =
     [''id'' \<mapsto> JStr newId,
      ''type'' \<mapsto> type,
      ''x'' \<mapsto> JNum 200,
      ''y'' \<mapsto> JNum 200,
      ''width'' \<mapsto> (if strict_eq type (ElementType_TEXT T) then JNum 300 else JNum 200),
      ''height'' \<mapsto> (if strict_eq type (ElementType_TEXT T) then JNum 100 else JNum 200),
      ''rotation'' \<mapsto> JNum 0,
      ''zIndex'' \<mapsto> JNum (real (n + 1)),
      ''opacity'' \<mapsto> JNum 1] ++ payload"

definition shapeDefaults :: "types_ts \<Rightarrow> jsval \<Rightarrow> obj \<Rightarrow> obj \<Rightarrow> obj" where
  "shapeDefaults T type payload e =
     (if strict_eq type (ElementType_SHAPE T) \<and> \<not> truthy (js_get payload ''backgroundColor'')
      then e(''backgroundColor'' \<mapsto> JStr ''#94a3b8'', ''shapeType'' \<mapsto> ShapeType_RECTANGLE T)
      else e)"

definition textDefaults :: "types_ts \<Rightarrow> jsval \<Rightarrow> obj \<Rightarrow> obj \<Rightarrow> obj" where
  "textDefaults T type payload e =
     (if strict_eq type (ElementType_TEXT T) \<and> \<not> truthy (js_get payload ''color'')
      then e(''color'' \<mapsto> JStr ''#1e293b'')
      else e)"

definition newElement :: "types_ts \<Rightarrow> string \<Rightarrow> jsval \<Rightarrow> obj \<Rightarrow> nat \<Rightarrow> obj" where
  "newElement T newId type payload n =
     textDefaults T type payload
       (shapeDefaults T type payload (newElement0 T newId type payload n))"

definition addElement :: "types_ts \<Rightarrow> string \<Rightarrow> jsval \<Rightarrow> obj \<Rightarrow> app_state \<Rightarrow> app_state" where
  "addElement T newId type payload s =
     (let el = newElement T newId type payload (length (elements s));
          newElements = elements s @ [el]
      in (addToHistory newElements (s\<lparr>elements := newElements\<rparr>))
           \<lparr>selectedId := js_get el ''id''\<rparr>)"

definition updateElement :: "string \<Rightarrow> obj \<Rightarrow> app_state \<Rightarrow> app_state" where
  "updateElement ident updates s =
     s\<lparr>elements :=
         map (\<lambda>el. if strict_eq (js_get el ''id'') (JStr ident) then el ++ updates else el)
           (elements s)\<rparr>"

text \<open>
  \<^verbatim>\<open>deleteElement(id?)\<close>: the argument is \<open>Some\<close> of a string, or \<open>None\<close> when the call
  passes no string (no argument, or an event object), in which case the selection is the
  target.
\<close>

definition deleteElement :: "string option \<Rightarrow> app_state \<Rightarrow> app_state" where
  "deleteElement ident s =
     (let targetId = (case ident of Some i \<Rightarrow> JStr i | None \<Rightarrow> selectedId s)
      in if truthy targetId then
           let newElements =
                 filter (\<lambda>el. \<not> strict_eq (js_get el ''id'') targetId) (elements s);
               s' = addToHistory newElements (s\<lparr>elements := newElements\<rparr>)
           in if strict_eq targetId (selectedId s) then s'\<lparr>selectedId := JNull\<rparr> else s'
         else s)"

definition copyOf :: "string \<Rightarrow> obj \<Rightarrow> nat \<Rightarrow> obj" where
  "copyOf newId elementToCopy n =
     elementToCopy
       (''id'' \<mapsto> JStr newId,
        ''x'' \<mapsto> js_add20 (js_get elementToCopy ''x''),
        ''y'' \<mapsto> js_add20 (js_get elementToCopy ''y''),
        ''zIndex'' \<mapsto> JNum (real (n + 1)))"

definition duplicateElement :: "string \<Rightarrow> string \<Rightarrow> app_state \<Rightarrow> app_state" where
  "duplicateElement newId ident s =
     (case find (\<lambda>el. strict_eq (js_get el ''id'') (JStr ident)) (elements s) of
        None \<Rightarrow> s
      | Some elementToCopy \<Rightarrow>
          let el = copyOf newId elementToCopy (length (elements s));
              newElements = elements s @ [el]
          in (addToHistory newElements (s\<lparr>elements := newElements\<rparr>))
               \<lparr>selectedId := js_get el ''id''\<rparr>)"


subsection \<open>Sequences of operations\<close>

text \<open>
  One public operation per event, each applied to the state of the latest render.
  \<open>SetSelected\<close> is \<^verbatim>\<open>setSelectedId\<close>, handed to the canvas as \<^verbatim>\<open>onSelect\<close>.
\<close>

datatype op =
    AddElement string jsval obj
  | UpdateElement string obj
  | DeleteElement "string option"
  | DuplicateElement string string
  | Undo bool
  | Redo bool
  | SetSelected "string option"

fun step :: "types_ts \<Rightarrow> op \<Rightarrow> app_state \<Rightarrow> error + app_state" where
  "step T (AddElement newId type payload) s = Inr (addElement T newId type payload s)"
| "step T (UpdateElement ident updates) s = Inr (updateElement ident updates s)"
| "step T (DeleteElement ident) s = Inr (deleteElement ident s)"
| "step T (DuplicateElement newId ident) s = Inr (duplicateElement newId ident s)"
| "step T (Undo confirm) s = handleUndo confirm s"
| "step T (Redo confirm) s = handleRedo confirm s"
| "step T (SetSelected sel) s =
     Inr (s\<lparr>selectedId := (case sel of None \<Rightarrow> JNull | Some i \<Rightarrow> JStr i)\<rparr>)"

fun run :: "types_ts \<Rightarrow> op list \<Rightarrow> app_state \<Rightarrow> error + app_state" where
  "run T [] s = Inr s"
| "run T (c # cs) s = (case step T c s of Inl e \<Rightarrow> Inl e | Inr s' \<Rightarrow> run T cs s')"

fun is_update :: "op \<Rightarrow> bool" where
  "is_update (UpdateElement ident updates) = True"
| "is_update c = False"

subsection \<open>The history invariant\<close>

text \<open>
  The cursor points into the history, and the snapshot under the cursor is the current
  element list.
\<close>

definition cursor_ok :: "app_state \<Rightarrow> bool" where
  "cursor_ok s = (0 \<le> historyIndex s \<and> historyIndex s < int (length (history s)))"

definition synced :: "app_state \<Rightarrow> bool" where
  "synced s = (js_nth (history s) (historyIndex s) = Some (elements s))"

subsection \<open>Operations that commit a snapshot\<close>

text \<open>
  \<open>commits c s\<close>: operation \<open>c\<close>, applied in state \<open>s\<close>, reaches a call of
  \<^verbatim>\<open>addToHistory\<close>. \<open>committing_kind\<close> is the wider reading by kind of operation: add,
  delete, duplicate, undo and redo. \<open>at_tip\<close>: the cursor is on the last snapshot.
\<close>

fun committing_kind :: "op \<Rightarrow> bool" where
  "committing_kind (UpdateElement ident updates) = False"
| "committing_kind (SetSelected sel) = False"
| "committing_kind c = True"

fun commits :: "op \<Rightarrow> app_state \<Rightarrow> bool" where
  "commits (AddElement newId type payload) s = True"
| "commits (DeleteElement ident) s =
     truthy (case ident of Some i \<Rightarrow> JStr i | None \<Rightarrow> selectedId s)"
| "commits (DuplicateElement newId ident) s =
     (find (\<lambda>el. strict_eq (js_get el ''id'') (JStr ident)) (elements s) \<noteq> None)"
| "commits c s = False"

fun all_commit :: "types_ts \<Rightarrow> op list \<Rightarrow> app_state \<Rightarrow> bool" where
  "all_commit T [] s = True"
| "all_commit T (c # cs) s =
     (commits c s \<and> (case step T c s of Inl e \<Rightarrow> False | Inr s' \<Rightarrow> all_commit T cs s'))"

definition at_tip :: "app_state \<Rightarrow> bool" where
  "at_tip s = (historyIndex s = int (length (history s)) - 1)"

text \<open>
  \<open>resyncs c s\<close>: operation \<open>c\<close>, applied in state \<open>s\<close>, writes the element list and the
  history together (a commit, or an undo or redo that takes effect).
  \<open>no_pending_update T cs s b\<close> follows a run and tells whether, at its end, no
  \<^verbatim>\<open>updateElement\<close> has been applied since the last such operation; \<open>b\<close> is the answer
  for the state the run starts in.
\<close>

fun resyncs :: "op \<Rightarrow> app_state \<Rightarrow> bool" where
  "resyncs (Undo confirm) s =
     (0 < historyIndex s \<and> (confirm \<or> int (length (history s)) \<le> 1))"
| "resyncs (Redo confirm) s =
     (historyIndex s < int (length (history s)) - 1 \<and> (confirm \<or> int (length (history s)) \<le> 1))"
| "resyncs c s = commits c s"

fun no_pending_update :: "types_ts \<Rightarrow> op list \<Rightarrow> app_state \<Rightarrow> bool \<Rightarrow> bool" where
  "no_pending_update T [] s b = b"
| "no_pending_update T (c # cs) s b =
     (case step T c s of
        Inl e \<Rightarrow> False
      | Inr s' \<Rightarrow> no_pending_update T cs s' (resyncs c s \<or> (\<not> is_update c \<and> b)))"

subsection \<open>Identity of elements\<close>

text \<open>
  An element is known by its \<open>id\<close>. \<open>creates T c s\<close> is the element operation \<open>c\<close>
  appends in state \<open>s\<close> (none, for an operation that creates nothing), \<open>created\<close>
  collects these along a run, and \<open>stored\<close> is every element of the current list and of
  the snapshots. \<open>keeps_identity\<close> holds of every operation but an update that writes
  \<open>id\<close> or \<open>type\<close>.
\<close>

definition id_type :: "obj \<Rightarrow> jsval \<times> jsval" where
  "id_type el = (js_get el ''id'', js_get el ''type'')"

fun creates :: "types_ts \<Rightarrow> op \<Rightarrow> app_state \<Rightarrow> obj list" where
  "creates T (AddElement newId type payload) s =
     [newElement T newId type payload (length (elements s))]"
| "creates T (DuplicateElement newId ident) s =
     (case find (\<lambda>el. strict_eq (js_get el ''id'') (JStr ident)) (elements s) of
        None \<Rightarrow> []
      | Some elementToCopy \<Rightarrow> [copyOf newId elementToCopy (length (elements s))])"
| "creates T c s = []"

fun created :: "types_ts \<Rightarrow> op list \<Rightarrow> app_state \<Rightarrow> obj list" where
  "created T [] s = []"
| "created T (c # cs) s =
     creates T c s @ (case step T c s of Inl e \<Rightarrow> [] | Inr s' \<Rightarrow> created T cs s')"

fun keeps_identity :: "op \<Rightarrow> bool" where
  "keeps_identity (UpdateElement ident updates) = (updates ''id'' = None \<and> updates ''type'' = None)"
| "keeps_identity c = True"

definition stored :: "app_state \<Rightarrow> obj set" where
  "stored s = set (elements s) \<union> (\<Union>snap \<in> set (history s). set snap)"

subsection \<open>The selection\<close>

text \<open>
  \<open>selection_valid\<close>: the selection is \<^verbatim>\<open>null\<close> or the id of an element of the list.
  \<open>has_id es v\<close>: some element of \<open>es\<close> has the id \<open>v\<close>.
\<close>

definition selection_valid :: "app_state \<Rightarrow> bool" where
  "selection_valid s =
     (selectedId s = JNull \<or>
      (\<exists>el \<in> set (elements s). strict_eq (js_get el ''id'') (selectedId s)))"






text \<open>Concrete enum values used where a theorem is evaluated on an input.\<close>

definition T0 :: types_ts where
  "T0 = \<lparr>ElementType_TEXT = JStr ''text'', ElementType_SHAPE = JStr ''shape'',
          ShapeType_RECTANGLE = JStr ''rectangle''\<rparr>"

section \<open>Rounded sums\<close>

text \<open>
  An integer of magnitude below \<open>2 ^ 53\<close> is a double, so rounding leaves it as it is.
\<close>

declare bits.simps [simp del]

lemma bits_le: "n < 2 ^ k \<Longrightarrow> bits n \<le> int k"
proof (induction n arbitrary: k rule: bits.induct)
  case (1 n)
  show ?case
  proof (cases "n \<le> 0")
    case True
    then show ?thesis by (simp add: bits.simps)
  next
    case False
    with "1.prems" obtain j where k: "k = Suc j" by (cases k) auto
    with "1.prems" have "n div 2 < 2 ^ j" by auto
    from "1.IH" [OF False this] False k show ?thesis by (simp add: bits.simps [of n])
  qed
qed

lemma round_half_even_int [simp]: "round_half_even (of_int k) = k"
  by (simp add: round_half_even_def)

lemma fl64_int:
  assumes "\<bar>k\<bar> < 2 ^ 53"
  shows "fl64 (of_int k) = JNum (of_int k)"
proof (cases "k = 0")
  case True
  then show ?thesis by (simp add: fl64_def)
next
  case False
  let ?x = "of_int k :: real"
  have ge: "1 \<le> \<bar>?x\<bar>" using False by (simp flip: of_int_abs)
  have "\<lfloor>\<bar>?x\<bar>\<rfloor> = \<bar>k\<bar>" by (simp flip: of_int_abs)
  with assms have "bits \<lfloor>\<bar>?x\<bar>\<rfloor> \<le> 53" using bits_le [of "\<bar>k\<bar>" 53] by simp
  with ge have b: "binade ?x \<le> 52" by (simp add: binade_def)
  define e where "e = max (binade ?x - 52) (- 1074)"
  have e: "e \<le> 0" using b by (simp add: e_def)
  define n where "n = nat (- e)"
  have p: "(2::real) powi e = 1 / 2 ^ n" using e by (simp add: power_int_def n_def field_simps)
  have "?x / 2 powi e = of_int (k * 2 ^ n)" by (simp add: p)
  then have r: "round_half_even (?x / 2 powi e) = k * 2 ^ n"
    by (metis round_half_even_int)
  have "of_int (round_half_even (?x / 2 powi e)) * 2 powi e =
      (of_int (k * 2 ^ n) :: real) * (1 / 2 ^ n)"
    by (subst r, subst p, rule refl)
  also have "\<dots> = ?x" by simp
  finally have y: "of_int (round_half_even (?x / 2 powi e)) * 2 powi e = ?x" .
  have "\<bar>?x\<bar> < 2 ^ 53" using assms by (metis of_int_abs of_int_less_numeral_power_cancel_iff)
  also have "(2::real) ^ 53 \<le> 2 ^ 1024" by (rule power_increasing) simp_all
  finally have "\<not> 2 ^ 1024 \<le> \<bar>?x\<bar>" by simp
  with False y show ?thesis
    unfolding fl64_def Let_def e_def [symmetric] by (simp add: e_def [symmetric])
qed


text \<open>
  A sum that is not exact: \<open>2 ^ 60 = 1152921504606846976\<close> is a double whose neighbours
  are 256 apart, so adding 20 to it gives it back.
\<close>

lemma fl64_absorbs_20: "fl64 (1152921504606846976 + 20) = JNum 1152921504606846976"
  by code_simp

section \<open>Basic facts about the operations\<close>

lemmas op_defs = addElement_def updateElement_def deleteElement_def duplicateElement_def
  handleUndo_def handleRedo_def addToHistory_def js_slice0_def js_nth_def Let_def

lemmas el_defs = newElement_def textDefaults_def shapeDefaults_def newElement0_def
  copyOf_def js_get_def strict_eq_def T0_def

lemma addToHistory_history:
  "cursor_ok s \<Longrightarrow> history (addToHistory es s) = take (nat (historyIndex s + 1)) (history s) @ [es]"
  by (auto simp: addToHistory_def cursor_ok_def js_slice0_def Let_def min_def)

lemma addToHistory_index:
  "cursor_ok s \<Longrightarrow> historyIndex (addToHistory es s) = historyIndex s + 1"
  by (auto simp: addToHistory_def cursor_ok_def js_slice0_def Let_def min_def)

lemma addToHistory_elements [simp]: "elements (addToHistory es s) = elements s"
  and addToHistory_selectedId [simp]: "selectedId (addToHistory es s) = selectedId s"
  by (simp_all add: addToHistory_def Let_def)

lemma addToHistory_cursor_ok: "cursor_ok (addToHistory es s)"
  by (simp add: addToHistory_def cursor_ok_def Let_def)

lemma addToHistory_synced: "elements s = es \<Longrightarrow> synced (addToHistory es s)"
  by (simp add: addToHistory_def synced_def js_nth_def Let_def nth_append)

lemma startup_eq: "startup = \<lparr>elements = [], selectedId = JNull, history = [[]], historyIndex = 0\<rparr>"
  by (simp add: startup_def mount_def initial_def addToHistory_def js_slice0_def)

lemma handleUndo_cursor_ok:
  "cursor_ok s \<Longrightarrow> \<exists>s'. handleUndo b s = Inr s' \<and> cursor_ok s'"
  by (auto simp: handleUndo_def cursor_ok_def js_nth_def)

lemma handleRedo_cursor_ok:
  "cursor_ok s \<Longrightarrow> \<exists>s'. handleRedo b s = Inr s' \<and> cursor_ok s'"
  by (auto simp: handleRedo_def cursor_ok_def js_nth_def)

lemma synced_selectedId [simp]: "synced (s\<lparr>selectedId := v\<rparr>) = synced s"
  by (simp add: synced_def)

lemma cursor_ok_selectedId [simp]: "cursor_ok (s\<lparr>selectedId := v\<rparr>) = cursor_ok s"
  by (simp add: cursor_ok_def)

lemma synced_commit [simp]: "synced (addToHistory es (s\<lparr>elements := es\<rparr>))"
  by (simp add: addToHistory_synced)

lemma addElement_cursor_ok: "cursor_ok (addElement T newId type payload s)"
  by (simp add: addElement_def Let_def addToHistory_cursor_ok)

lemma addElement_synced: "synced (addElement T newId type payload s)"
  by (simp add: addElement_def Let_def)

lemma updateElement_cursor_ok: "cursor_ok (updateElement ident updates s) = cursor_ok s"
  by (simp add: updateElement_def cursor_ok_def)

lemma deleteElement_cursor_ok: "cursor_ok s \<Longrightarrow> cursor_ok (deleteElement ident s)"
  by (simp add: deleteElement_def Let_def addToHistory_cursor_ok)

lemma deleteElement_synced: "synced s \<Longrightarrow> synced (deleteElement ident s)"
  by (simp add: deleteElement_def Let_def)

lemma duplicateElement_cursor_ok: "cursor_ok s \<Longrightarrow> cursor_ok (duplicateElement newId ident s)"
  by (simp add: duplicateElement_def Let_def addToHistory_cursor_ok split: option.splits)

lemma duplicateElement_synced: "synced s \<Longrightarrow> synced (duplicateElement newId ident s)"
  by (simp add: duplicateElement_def Let_def split: option.splits)

lemma handleUndo_synced:
  "cursor_ok s \<Longrightarrow> synced s \<Longrightarrow> handleUndo b s = Inr s' \<Longrightarrow> synced s'"
  by (auto simp: handleUndo_def cursor_ok_def synced_def js_nth_def split: if_splits)

lemma handleRedo_synced:
  "cursor_ok s \<Longrightarrow> synced s \<Longrightarrow> handleRedo b s = Inr s' \<Longrightarrow> synced s'"
  by (auto simp: handleRedo_def cursor_ok_def synced_def js_nth_def split: if_splits)

lemma step_cursor_ok:
  assumes "cursor_ok s"
  shows "\<exists>s'. step T c s = Inr s' \<and> cursor_ok s'"
  using assms
  by (cases c)
    (simp_all add: addElement_cursor_ok updateElement_cursor_ok deleteElement_cursor_ok
      duplicateElement_cursor_ok handleUndo_cursor_ok handleRedo_cursor_ok)

lemma step_synced:
  assumes "cursor_ok s" and "synced s" and "\<not> is_update c" and "step T c s = Inr s'"
  shows "synced s'"
  using assms
  by (cases c)
    (auto simp: addElement_synced deleteElement_synced duplicateElement_synced
      dest: handleUndo_synced handleRedo_synced)

lemma run_cursor_ok:
  "cursor_ok s \<Longrightarrow> \<exists>s'. run T cs s = Inr s' \<and> cursor_ok s'"
proof (induction cs arbitrary: s)
  case Nil
  then show ?case by simp
next
  case (Cons c cs)
  from step_cursor_ok [OF Cons.prems, of T c]
  obtain s1 where s1: "step T c s = Inr s1" "cursor_ok s1" by blast
  from Cons.IH [OF s1(2)] s1(1) show ?case by simp
qed

lemma step_resyncs:
  assumes "cursor_ok s" and "resyncs c s" and "step T c s = Inr s'"
  shows "synced s'"
proof (cases c)
  case (AddElement newId type payload)
  with assms(3) show ?thesis by (auto simp: addElement_synced)
next
  case (DeleteElement ident)
  with assms(2,3) show ?thesis by (auto simp: deleteElement_def Let_def)
next
  case (DuplicateElement newId ident)
  with assms(2,3) show ?thesis
    by (auto simp: duplicateElement_def Let_def split: option.splits)
next
  case (Undo confirm)
  with assms show ?thesis
    by (auto simp: handleUndo_def cursor_ok_def synced_def js_nth_def split: if_splits)
next
  case (Redo confirm)
  with assms show ?thesis
    by (auto simp: handleRedo_def cursor_ok_def synced_def js_nth_def split: if_splits)
next
  case (UpdateElement ident updates)
  with assms(2) show ?thesis by simp
next
  case (SetSelected sel)
  with assms(2) show ?thesis by simp
qed

lemma run_synced:
  "cursor_ok s \<Longrightarrow> (b \<longrightarrow> synced s) \<Longrightarrow> no_pending_update T cs s b \<Longrightarrow>
     run T cs s = Inr s' \<Longrightarrow> synced s'"
proof (induction cs arbitrary: s b)
  case Nil
  then show ?case by simp
next
  case (Cons c cs)
  from Cons.prems(4) obtain s1 where s1: "step T c s = Inr s1" "run T cs s1 = Inr s'"
    by (auto split: sum.splits)
  let ?b = "resyncs c s \<or> (\<not> is_update c \<and> b)"
  from Cons.prems(3) s1(1) have n: "no_pending_update T cs s1 ?b" by simp
  from step_cursor_ok [OF Cons.prems(1), of T c] s1(1) have c1: "cursor_ok s1" by simp
  have "?b \<longrightarrow> synced s1"
    using step_resyncs [OF Cons.prems(1) _ s1(1)] step_synced [OF Cons.prems(1) _ _ s1(1)]
      Cons.prems(2) by blast
  from Cons.IH [OF c1 this n s1(2)] show ?case .
qed

lemma no_update_no_pending:
  "cursor_ok s \<Longrightarrow> list_all (\<lambda>c. \<not> is_update c) cs \<Longrightarrow> no_pending_update T cs s True"
proof (induction cs arbitrary: s)
  case Nil
  then show ?case by simp
next
  case (Cons c cs)
  from step_cursor_ok [OF Cons.prems(1), of T c]
  obtain s1 where s1: "step T c s = Inr s1" "cursor_ok s1" by blast
  from Cons.prems(2) have "\<not> is_update c" "list_all (\<lambda>c. \<not> is_update c) cs" by simp_all
  with Cons.IH [OF s1(2)] s1(1) show ?case by simp
qed

lemma startup_invariant: "cursor_ok startup" "synced startup"
  by (simp_all add: startup_eq cursor_ok_def synced_def js_nth_def)

lemma run_startup:
  "\<exists>s. run T cs startup = Inr s \<and> cursor_ok s \<and>
       (no_pending_update T cs startup True \<longrightarrow> synced s)"
proof -
  from run_cursor_ok [OF startup_invariant(1), of T cs]
  obtain s where s: "run T cs startup = Inr s" "cursor_ok s" by blast
  from run_synced [OF startup_invariant(1) _ _ s(1), of True] startup_invariant(2)
  have "no_pending_update T cs startup True \<longrightarrow> synced s" by blast
  with s show ?thesis by blast
qed

section \<open>Deleting with no target\<close>

text \<open>
  Claim C10. Calling \<^verbatim>\<open>deleteElement()\<close> with no argument while the selection is
  \<^verbatim>\<open>null\<close> changes nothing: the element list, the history, the cursor and the selection
  are those of the state before.
\<close>

theorem deleteElement_no_target_noop:
  "selectedId s = JNull \<Longrightarrow> deleteElement None s = s"
  by (simp add: deleteElement_def)

theorem deleteElement_no_target_noop_witness:
  "selectedId startup = JNull \<and> deleteElement None startup = startup"
  using deleteElement_no_target_noop [of startup]
  by (simp add: startup_def mount_def initial_def addToHistory_def)

section \<open>The history invariant along runs\<close>

text \<open>
  Claim C1, as the code has it. After the mount effect, and after every sequence of
  public operations, no operation has failed and the cursor satisfies
  \<open>0 \<le> historyIndex < length history\<close>. The snapshot under the cursor is the current
  element list whenever no \<^verbatim>\<open>updateElement\<close> has been applied since the last commit,
  undo or redo that took effect, and so in every state reached without
  \<^verbatim>\<open>updateElement\<close>: that operation replaces the element list and commits nothing.
\<close>

theorem history_invariant:
  "\<exists>s. run T cs startup = Inr s \<and>
       0 \<le> historyIndex s \<and> historyIndex s < int (length (history s)) \<and>
       (no_pending_update T cs startup True \<longrightarrow>
          js_nth (history s) (historyIndex s) = Some (elements s)) \<and>
       (list_all (\<lambda>c. \<not> is_update c) cs \<longrightarrow>
          js_nth (history s) (historyIndex s) = Some (elements s))"
  using run_startup [of T cs] no_update_no_pending [OF startup_invariant(1), of cs T]
  by (auto simp: cursor_ok_def synced_def)

theorem history_invariant_witness:
  "no_pending_update T0 [AddElement ''a'' (JStr ''shape'') Map.empty,
      UpdateElement ''a'' [''x'' \<mapsto> JNum 300], DuplicateElement ''b'' ''a'', Undo True]
      startup True \<and>
   list_all (\<lambda>c. \<not> is_update c) [AddElement ''a'' (JStr ''shape'') Map.empty, Undo True] \<and>
   (\<exists>s. run T0 [AddElement ''a'' (JStr ''shape'') Map.empty,
      UpdateElement ''a'' [''x'' \<mapsto> JNum 300], DuplicateElement ''b'' ''a'', Undo True]
      startup = Inr s \<and>
        0 \<le> historyIndex s \<and> historyIndex s < int (length (history s)) \<and>
        js_nth (history s) (historyIndex s) = Some (elements s)) \<and>
   (\<exists>s. run T0 [AddElement ''a'' (JStr ''shape'') Map.empty, Undo True] startup = Inr s \<and>
        0 \<le> historyIndex s \<and> historyIndex s < int (length (history s)) \<and>
        js_nth (history s) (historyIndex s) = Some (elements s))"
proof -
  let ?cs1 = "[AddElement ''a'' (JStr ''shape'') Map.empty,
      UpdateElement ''a'' [''x'' \<mapsto> JNum 300], DuplicateElement ''b'' ''a'', Undo True]"
  let ?cs2 = "[AddElement ''a'' (JStr ''shape'') Map.empty, Undo True]"
  have n: "no_pending_update T0 ?cs1 startup True"
    by (simp add: startup_eq op_defs el_defs)
  have l: "list_all (\<lambda>c. \<not> is_update c) ?cs2"
    by simp
  from history_invariant [of T0 ?cs1] n
  have a: "\<exists>s. run T0 ?cs1 startup = Inr s \<and>
        0 \<le> historyIndex s \<and> historyIndex s < int (length (history s)) \<and>
        js_nth (history s) (historyIndex s) = Some (elements s)"
    by blast
  from history_invariant [of T0 ?cs2] l
  have b: "\<exists>s. run T0 ?cs2 startup = Inr s \<and>
        0 \<le> historyIndex s \<and> historyIndex s < int (length (history s)) \<and>
        js_nth (history s) (historyIndex s) = Some (elements s)"
    by blast
  from n l a b show ?thesis by blast
qed

text \<open>
  The claim as stated fails immediately after an \<^verbatim>\<open>updateElement\<close> call: adding a
  shape and moving it to \<open>x = 300\<close> leaves the snapshot under the cursor with \<open>x = 200\<close>.
\<close>

theorem history_invariant_counterexample:
  "\<exists>s. run T0 [AddElement ''a'' (JStr ''shape'') Map.empty,
                UpdateElement ''a'' [''x'' \<mapsto> JNum 300]] startup = Inr s \<and>
       js_nth (history s) (historyIndex s) \<noteq> Some (elements s)"
proof -
  let ?e = "newElement T0 ''a'' (JStr ''shape'') Map.empty 0"
  have ident: "js_get ?e ''id'' = JStr ''a''"
    by (simp add: el_defs)
  have x: "?e ''x'' = Some (JNum 200)"
    by (simp add: el_defs)
  have ne: "?e ++ [''x'' \<mapsto> JNum 300] \<noteq> ?e"
  proof
    assume "?e ++ [''x'' \<mapsto> JNum 300] = ?e"
    then have "(?e ++ [''x'' \<mapsto> JNum 300]) ''x'' = ?e ''x''" by simp
    with x show False by simp
  qed
  show ?thesis using ne ident
    by (simp add: startup_eq op_defs strict_eq_def)
qed

section \<open>The length of the history\<close>

lemma addToHistory_length_le: "length (history (addToHistory es s)) \<le> length (history s) + 1"
  by (simp add: addToHistory_def js_slice0_def Let_def)

lemma addToHistory_at_tip: "at_tip (addToHistory es s)"
  by (simp add: addToHistory_def at_tip_def Let_def)

lemma addToHistory_length_tip:
  "at_tip s \<Longrightarrow> length (history (addToHistory es s)) = length (history s) + 1"
  by (simp add: addToHistory_def js_slice0_def Let_def at_tip_def)

lemma at_tip_fields [simp]:
  "at_tip (s\<lparr>selectedId := v\<rparr>) = at_tip s" "at_tip (s\<lparr>elements := es\<rparr>) = at_tip s"
  by (simp_all add: at_tip_def)

lemma history_selectedId_update [simp]: "history (addToHistory es (s\<lparr>elements := es'\<rparr>)) = history (addToHistory es s)"
  by (simp add: addToHistory_def Let_def)

lemma step_length_le:
  assumes "step T c s = Inr s'"
  shows "length (history s') \<le> length (history s) + 1"
  using assms addToHistory_length_le [of _ s]
  by (cases c)
    (auto simp: addElement_def updateElement_def deleteElement_def duplicateElement_def
       handleUndo_def handleRedo_def Let_def split: if_splits option.splits)

lemma step_commit_length:
  assumes "commits c s" and "at_tip s"
  shows "\<exists>s'. step T c s = Inr s' \<and> at_tip s' \<and> length (history s') = length (history s) + 1"
  using assms
  by (cases c)
    (auto simp: addElement_def deleteElement_def duplicateElement_def Let_def
       addToHistory_at_tip addToHistory_length_tip split: option.splits)

lemma run_length_le:
  "cursor_ok s \<Longrightarrow> \<exists>s'. run T cs s = Inr s' \<and> length (history s') \<le> length (history s) + length cs"
proof (induction cs arbitrary: s)
  case Nil
  then show ?case by simp
next
  case (Cons c cs)
  from step_cursor_ok [OF Cons.prems, of T c]
  obtain s1 where s1: "step T c s = Inr s1" "cursor_ok s1" by blast
  from Cons.IH [OF s1(2)]
  obtain s' where s': "run T cs s1 = Inr s'" "length (history s') \<le> length (history s1) + length cs"
    by blast
  with step_length_le [OF s1(1)] s1 show ?case by simp
qed

lemma run_all_commit_length:
  "at_tip s \<Longrightarrow> all_commit T cs s \<Longrightarrow>
     \<exists>s'. run T cs s = Inr s' \<and> length (history s') = length (history s) + length cs"
proof (induction cs arbitrary: s)
  case Nil
  then show ?case by simp
next
  case (Cons c cs)
  from Cons.prems have c: "commits c s" by simp
  from step_commit_length [OF c Cons.prems(1), of T]
  obtain s1 where s1: "step T c s = Inr s1" "at_tip s1"
    "length (history s1) = length (history s) + 1" by blast
  from Cons.prems s1 have "all_commit T cs s1" by simp
  from Cons.IH [OF s1(2) this]
  obtain s' where "run T cs s1 = Inr s'" "length (history s') = length (history s1) + length cs"
    by blast
  with s1 show ?case by simp
qed

text \<open>
  Claim C6, as the code has it. After \<open>N\<close> operations from the initial state the history
  has at most \<open>N + 1\<close> snapshots, and exactly \<open>N + 1\<close> when each of the \<open>N\<close> operations
  commits a snapshot (an add, a delete with a non-empty target, a duplicate of an id that
  is present). Undo and redo leave the history list as it is.
\<close>

theorem history_length:
  "(\<exists>s. run T cs startup = Inr s \<and> length (history s) \<le> length cs + 1 \<and>
       (all_commit T cs startup \<longrightarrow> length (history s) = length cs + 1)) \<and>
   (\<forall>confirm s s'. handleUndo confirm s = Inr s' \<longrightarrow> history s' = history s) \<and>
   (\<forall>confirm s s'. handleRedo confirm s = Inr s' \<longrightarrow> history s' = history s)"
proof -
  have st: "cursor_ok startup" "at_tip startup" "length (history startup) = 1"
    by (simp_all add: startup_eq cursor_ok_def at_tip_def)
  from run_length_le [OF st(1), of T cs]
  obtain s where s: "run T cs startup = Inr s" "length (history s) \<le> length cs + 1"
    using st(3) by auto
  from run_all_commit_length [OF st(2), of T cs] s(1) st(3)
  have "all_commit T cs startup \<longrightarrow> length (history s) = length cs + 1" by auto
  with s have a: "\<exists>s. run T cs startup = Inr s \<and> length (history s) \<le> length cs + 1 \<and>
       (all_commit T cs startup \<longrightarrow> length (history s) = length cs + 1)" by blast
  have u: "handleUndo confirm s = Inr s' \<longrightarrow> history s' = history s" for confirm s s'
    by (auto simp: handleUndo_def split: if_splits option.splits)
  have r: "handleRedo confirm s = Inr s' \<longrightarrow> history s' = history s" for confirm s s'
    by (auto simp: handleRedo_def split: if_splits option.splits)
  from a u r show ?thesis by blast
qed

theorem history_length_witness:
  "all_commit T0 [AddElement ''a'' (JStr ''shape'') Map.empty, DuplicateElement ''b'' ''a'',
       DeleteElement None] startup \<and>
   (\<exists>s. run T0 [AddElement ''a'' (JStr ''shape'') Map.empty, DuplicateElement ''b'' ''a'',
       DeleteElement None] startup = Inr s \<and> length (history s) = 4) \<and>
   (\<exists>s. handleUndo True (addElement T0 ''a'' (JStr ''shape'') Map.empty startup) = Inr s \<and>
       history s = history (addElement T0 ''a'' (JStr ''shape'') Map.empty startup) \<and>
       historyIndex s = 0)"
proof -
  let ?cs = "[AddElement ''a'' (JStr ''shape'') Map.empty, DuplicateElement ''b'' ''a'',
       DeleteElement None]"
  let ?s = "addElement T0 ''a'' (JStr ''shape'') Map.empty startup"
  have a: "all_commit T0 ?cs startup"
    by (simp add: startup_eq op_defs el_defs)
  from history_length [of T0 ?cs] a
  have b: "\<exists>s. run T0 ?cs startup = Inr s \<and> length (history s) = length ?cs + 1"
    by blast
  obtain s where s: "handleUndo True ?s = Inr s" "historyIndex s = 0"
    by (simp add: startup_eq op_defs)
  from history_length [of T0 ?cs] s(1) have "history s = history ?s"
    by blast
  with a b s show ?thesis by auto
qed

text \<open>
  The claim as stated counts undo and redo as committing: an add followed by an undo is
  two such operations and leaves two snapshots, not three.
\<close>

theorem history_length_counterexample:
  "\<not> (\<forall>cs s. list_all committing_kind cs \<and> run T0 cs startup = Inr s
        \<longrightarrow> length (history s) = length cs + 1)"
proof
  assume a: "\<forall>cs s. list_all committing_kind cs \<and> run T0 cs startup = Inr s
        \<longrightarrow> length (history s) = length cs + 1"
  have "\<exists>s. run T0 [AddElement ''a'' (JStr ''shape'') Map.empty, Undo True] startup = Inr s \<and>
        length (history s) = 2"
    by (simp add: startup_eq op_defs)
  then obtain s
    where s: "run T0 [AddElement ''a'' (JStr ''shape'') Map.empty, Undo True] startup = Inr s"
      "length (history s) = 2" by blast
  have "list_all committing_kind [AddElement ''a'' (JStr ''shape'') Map.empty, Undo True]"
    by simp
  with a s(1) have "length (history s) = length [AddElement ''a'' (JStr ''shape'') Map.empty, Undo True] + 1"
    by blast
  with s(2) show False by simp
qed

section \<open>Undo followed by redo\<close>

text \<open>
  Claim C5, as the code has it. In every state reached from startup in which undo is
  enabled, a confirmed undo followed by a confirmed redo succeeds and puts the element
  list back to the snapshot under the cursor before the undo, with the history, the cursor
  and the selection as before. That snapshot is the element list held just before the undo
  whenever no \<^verbatim>\<open>updateElement\<close> has been applied since the last commit, undo or redo that
  took effect, and so in every state reached without \<^verbatim>\<open>updateElement\<close>.
\<close>

theorem undo_redo_restores_snapshot:
  assumes "run T cs startup = Inr s" and "0 < historyIndex s"
  shows "\<exists>s1 s2. handleUndo True s = Inr s1 \<and> handleRedo True s1 = Inr s2 \<and>
           js_nth (history s) (historyIndex s) = Some (elements s2) \<and>
           history s2 = history s \<and> historyIndex s2 = historyIndex s \<and>
           selectedId s2 = selectedId s \<and>
           (no_pending_update T cs startup True \<longrightarrow> elements s2 = elements s) \<and>
           (list_all (\<lambda>c. \<not> is_update c) cs \<longrightarrow> elements s2 = elements s)"
proof -
  from run_startup [of T cs] assms(1)
    no_update_no_pending [OF startup_invariant(1), of cs T]
  have inv: "cursor_ok s" "no_pending_update T cs startup True \<longrightarrow> synced s"
    "list_all (\<lambda>c. \<not> is_update c) cs \<longrightarrow> synced s"
    by auto
  with assms(2) show ?thesis
    by (auto simp: handleUndo_def handleRedo_def cursor_ok_def synced_def js_nth_def)
qed

theorem undo_redo_restores_snapshot_witness:
  "\<exists>s. run T0 [AddElement ''a'' (JStr ''shape'') Map.empty,
          UpdateElement ''a'' [''x'' \<mapsto> JNum 300], DuplicateElement ''b'' ''a''] startup = Inr s \<and>
       0 < historyIndex s \<and>
       no_pending_update T0 [AddElement ''a'' (JStr ''shape'') Map.empty,
          UpdateElement ''a'' [''x'' \<mapsto> JNum 300], DuplicateElement ''b'' ''a''] startup True \<and>
       (\<exists>s1 s2. handleUndo True s = Inr s1 \<and> handleRedo True s1 = Inr s2 \<and>
          elements s2 = elements s)"
proof -
  let ?cs = "[AddElement ''a'' (JStr ''shape'') Map.empty,
          UpdateElement ''a'' [''x'' \<mapsto> JNum 300], DuplicateElement ''b'' ''a'']"
  have n: "no_pending_update T0 ?cs startup True"
    by (simp add: startup_eq op_defs el_defs)
  obtain s where s: "run T0 ?cs startup = Inr s" "0 < historyIndex s"
    by (simp add: startup_eq op_defs el_defs)
  from undo_redo_restores_snapshot [OF s] s n show ?thesis
    by auto
qed

text \<open>
  The claim as stated fails after a transient update: add a shape, move it to \<open>x = 300\<close>,
  undo, redo. The element comes back with \<open>x = 200\<close>.
\<close>

theorem undo_redo_counterexample:
  "\<exists>s s1 s2. run T0 [AddElement ''a'' (JStr ''shape'') Map.empty,
                UpdateElement ''a'' [''x'' \<mapsto> JNum 300]] startup = Inr s \<and>
       0 < historyIndex s \<and>
       handleUndo True s = Inr s1 \<and> handleRedo True s1 = Inr s2 \<and>
       elements s2 \<noteq> elements s"
proof -
  let ?e = "newElement T0 ''a'' (JStr ''shape'') Map.empty 0"
  have ident: "js_get ?e ''id'' = JStr ''a''"
    by (simp add: el_defs)
  have x: "?e ''x'' = Some (JNum 200)"
    by (simp add: el_defs)
  have ne: "?e \<noteq> ?e ++ [''x'' \<mapsto> JNum 300]"
  proof
    assume "?e = ?e ++ [''x'' \<mapsto> JNum 300]"
    then have "?e ''x'' = (?e ++ [''x'' \<mapsto> JNum 300]) ''x''" by simp
    with x show False by simp
  qed
  show ?thesis using ne ident
    by (simp add: startup_eq op_defs strict_eq_def)
qed

section \<open>Creating elements\<close>

lemma addElement_elements:
  "elements (addElement T newId type payload s) =
     elements s @ [newElement T newId type payload (length (elements s))]"
  by (simp add: addElement_def Let_def)

lemma duplicateElement_elements:
  "find (\<lambda>el. strict_eq (js_get el ''id'') (JStr ident)) (elements s) = Some src \<Longrightarrow>
   elements (duplicateElement newId ident s) = elements s @ [copyOf newId src (length (elements s))]"
  by (simp add: duplicateElement_def Let_def)

text \<open>
  Claim C9. For every type and payload, \<^verbatim>\<open>addElement\<close> appends one element, and for
  each of the two coordinates separately: the element has \<open>x = 200\<close> when the payload has
  no \<open>x\<close>, and the payload's \<open>x\<close> when it has one; likewise \<open>y = 200\<close> when the payload
  has no \<open>y\<close>, and the payload's \<open>y\<close> when it has one.
\<close>

theorem addElement_default_position:
  "\<exists>el. elements (addElement T newId type payload s) = elements s @ [el] \<and>
     (payload ''x'' = None \<longrightarrow> el ''x'' = Some (JNum 200)) \<and>
     (payload ''y'' = None \<longrightarrow> el ''y'' = Some (JNum 200)) \<and>
     (\<forall>v. payload ''x'' = Some v \<longrightarrow> el ''x'' = Some v) \<and>
     (\<forall>v. payload ''y'' = Some v \<longrightarrow> el ''y'' = Some v)"
  by (simp add: addElement_elements newElement_def textDefaults_def shapeDefaults_def
      newElement0_def map_add_def)

theorem addElement_default_position_witness:
  "(\<exists>el. elements (addElement T0 ''a'' (JStr ''text'') Map.empty startup) =
        elements startup @ [el] \<and>
      el ''x'' = Some (JNum 200) \<and> el ''y'' = Some (JNum 200)) \<and>
   (\<exists>el. elements (addElement T0 ''a'' (JStr ''text'') [''y'' \<mapsto> JNum 7] startup) =
        elements startup @ [el] \<and>
      el ''x'' = Some (JNum 200) \<and> el ''y'' = Some (JNum 7)) \<and>
   (\<exists>el. elements (addElement T0 ''a'' (JStr ''text'') [''x'' \<mapsto> JNum 5] startup) =
        elements startup @ [el] \<and>
      el ''x'' = Some (JNum 5) \<and> el ''y'' = Some (JNum 200)) \<and>
   (\<exists>el. elements (addElement T0 ''a'' (JStr ''text'') [''x'' \<mapsto> JNum 5, ''y'' \<mapsto> JNum 7]
          startup) = elements startup @ [el] \<and>
      el ''x'' = Some (JNum 5) \<and> el ''y'' = Some (JNum 7))"
proof -
  from addElement_default_position [of T0 "''a''" "JStr ''text''" Map.empty startup]
  have 1: "\<exists>el. elements (addElement T0 ''a'' (JStr ''text'') Map.empty startup) =
        elements startup @ [el] \<and>
      el ''x'' = Some (JNum 200) \<and> el ''y'' = Some (JNum 200)"
    by simp
  from addElement_default_position [of T0 "''a''" "JStr ''text''" "[''y'' \<mapsto> JNum 7]" startup]
  have 2: "\<exists>el. elements (addElement T0 ''a'' (JStr ''text'') [''y'' \<mapsto> JNum 7] startup) =
        elements startup @ [el] \<and>
      el ''x'' = Some (JNum 200) \<and> el ''y'' = Some (JNum 7)"
    by simp
  from addElement_default_position [of T0 "''a''" "JStr ''text''" "[''x'' \<mapsto> JNum 5]" startup]
  have 3: "\<exists>el. elements (addElement T0 ''a'' (JStr ''text'') [''x'' \<mapsto> JNum 5] startup) =
        elements startup @ [el] \<and>
      el ''x'' = Some (JNum 5) \<and> el ''y'' = Some (JNum 200)"
    by fastforce
  from addElement_default_position [of T0 "''a''" "JStr ''text''"
      "[''x'' \<mapsto> JNum 5, ''y'' \<mapsto> JNum 7]" startup]
  have 4: "\<exists>el. elements (addElement T0 ''a'' (JStr ''text'') [''x'' \<mapsto> JNum 5, ''y'' \<mapsto> JNum 7]
          startup) = elements startup @ [el] \<and>
      el ''x'' = Some (JNum 5) \<and> el ''y'' = Some (JNum 7)"
    by simp
  from 1 2 3 4 show ?thesis by blast
qed

text \<open>
  Claim C7, as the code has it. When \<^verbatim>\<open>elements.find\<close> returns a source element for
  the id, \<^verbatim>\<open>duplicateElement\<close> appends one element: its id is the generated id, its
  \<open>zIndex\<close> is the number of elements before the call plus one, its \<open>x\<close> and \<open>y\<close> are
  the values of \<^verbatim>\<open>x + 20\<close> and \<^verbatim>\<open>y + 20\<close> on the source's coordinates, and every other
  property is the source's. For a numeric coordinate \<open>a\<close> that value is the double
  nearest to \<open>a + 20\<close>, which is \<open>a + 20\<close> itself when \<open>a\<close> is an integer with
  \<open>\<bar>a + 20\<bar> < 2 ^ 53\<close>.
\<close>

theorem duplicateElement_copy:
  assumes "find (\<lambda>el. strict_eq (js_get el ''id'') (JStr ident)) (elements s) = Some src"
  shows "\<exists>c. elements (duplicateElement newId ident s) = elements s @ [c] \<and>
           c ''id'' = Some (JStr newId) \<and>
           c ''zIndex'' = Some (JNum (real (length (elements s) + 1))) \<and>
           c ''x'' = Some (js_add20 (js_get src ''x'')) \<and>
           c ''y'' = Some (js_add20 (js_get src ''y'')) \<and>
           (\<forall>a. js_get src ''x'' = JNum a \<longrightarrow> c ''x'' = Some (fl64 (a + 20))) \<and>
           (\<forall>b. js_get src ''y'' = JNum b \<longrightarrow> c ''y'' = Some (fl64 (b + 20))) \<and>
           (\<forall>k. js_get src ''x'' = JNum (of_int k) \<and> \<bar>k + 20\<bar> < 2 ^ 53 \<longrightarrow>
              c ''x'' = Some (JNum (of_int k + 20))) \<and>
           (\<forall>k. js_get src ''y'' = JNum (of_int k) \<and> \<bar>k + 20\<bar> < 2 ^ 53 \<longrightarrow>
              c ''y'' = Some (JNum (of_int k + 20))) \<and>
           (\<forall>k. k \<notin> {''id'', ''x'', ''y'', ''zIndex''} \<longrightarrow> c k = src k)"
proof -
  let ?c = "copyOf newId src (length (elements s))"
  have ex: "fl64 (of_int k + 20) = JNum (of_int k + 20)" if "\<bar>k + 20\<bar> < 2 ^ 53" for k
    using fl64_int [OF that] by simp
  have "?c ''id'' = Some (JStr newId)"
    "?c ''zIndex'' = Some (JNum (real (length (elements s) + 1)))"
    "?c ''x'' = Some (js_add20 (js_get src ''x''))"
    "?c ''y'' = Some (js_add20 (js_get src ''y''))"
    "\<forall>k. k \<notin> {''id'', ''x'', ''y'', ''zIndex''} \<longrightarrow> ?c k = src k"
    by (simp_all add: copyOf_def)
  moreover have "\<forall>a. js_get src ''x'' = JNum a \<longrightarrow> ?c ''x'' = Some (fl64 (a + 20))"
    "\<forall>b. js_get src ''y'' = JNum b \<longrightarrow> ?c ''y'' = Some (fl64 (b + 20))"
    by (simp_all add: copyOf_def)
  moreover have "\<forall>k. js_get src ''x'' = JNum (of_int k) \<and> \<bar>k + 20\<bar> < 2 ^ 53 \<longrightarrow>
      ?c ''x'' = Some (JNum (of_int k + 20))"
    "\<forall>k. js_get src ''y'' = JNum (of_int k) \<and> \<bar>k + 20\<bar> < 2 ^ 53 \<longrightarrow>
      ?c ''y'' = Some (JNum (of_int k + 20))"
    using ex by (simp_all add: copyOf_def)
  ultimately have q: "elements (duplicateElement newId ident s) = elements s @ [?c] \<and>
           ?c ''id'' = Some (JStr newId) \<and>
           ?c ''zIndex'' = Some (JNum (real (length (elements s) + 1))) \<and>
           ?c ''x'' = Some (js_add20 (js_get src ''x'')) \<and>
           ?c ''y'' = Some (js_add20 (js_get src ''y'')) \<and>
           (\<forall>a. js_get src ''x'' = JNum a \<longrightarrow> ?c ''x'' = Some (fl64 (a + 20))) \<and>
           (\<forall>b. js_get src ''y'' = JNum b \<longrightarrow> ?c ''y'' = Some (fl64 (b + 20))) \<and>
           (\<forall>k. js_get src ''x'' = JNum (of_int k) \<and> \<bar>k + 20\<bar> < 2 ^ 53 \<longrightarrow>
              ?c ''x'' = Some (JNum (of_int k + 20))) \<and>
           (\<forall>k. js_get src ''y'' = JNum (of_int k) \<and> \<bar>k + 20\<bar> < 2 ^ 53 \<longrightarrow>
              ?c ''y'' = Some (JNum (of_int k + 20))) \<and>
           (\<forall>k. k \<notin> {''id'', ''x'', ''y'', ''zIndex''} \<longrightarrow> ?c k = src k)"
    using duplicateElement_elements [OF assms, of newId] by (intro conjI)
  show ?thesis by (rule exI [of _ ?c]) (rule q)
qed

theorem duplicateElement_copy_witness:
  "\<exists>s src. run T0 [AddElement ''a'' (JStr ''shape'') Map.empty] startup = Inr s \<and>
     find (\<lambda>el. strict_eq (js_get el ''id'') (JStr ''a'')) (elements s) = Some src \<and>
     js_get src ''x'' = JNum (of_int 200) \<and> js_get src ''y'' = JNum (of_int 200) \<and>
     \<bar>200 + 20 :: int\<bar> < 2 ^ 53 \<and>
     (\<exists>c. elements (duplicateElement ''b'' ''a'' s) = elements s @ [c] \<and>
        c ''id'' = Some (JStr ''b'') \<and> c ''zIndex'' = Some (JNum 2) \<and>
        c ''x'' = Some (JNum 220) \<and> c ''y'' = Some (JNum 220) \<and>
        c ''width'' = src ''width'' \<and> c ''backgroundColor'' = Some (JStr ''#94a3b8''))"
proof -
  let ?e = "newElement T0 ''a'' (JStr ''shape'') Map.empty 0"
  let ?s = "\<lparr>elements = [?e], selectedId = JStr ''a'', history = [[], [?e]], historyIndex = 1\<rparr>"
  have r: "run T0 [AddElement ''a'' (JStr ''shape'') Map.empty] startup = Inr ?s"
    by (simp add: startup_eq op_defs) (simp add: el_defs)
  have f: "find (\<lambda>el. strict_eq (js_get el ''id'') (JStr ''a'')) (elements ?s) = Some ?e"
    by (simp add: el_defs)
  have v: "js_get ?e ''x'' = JNum (of_int 200)" "js_get ?e ''y'' = JNum (of_int 200)"
    by (simp_all add: el_defs)
  have bg: "?e ''backgroundColor'' = Some (JStr ''#94a3b8'')"
    by (simp add: el_defs)
  have b: "\<bar>200 + 20 :: int\<bar> < 2 ^ 53" by simp
  from duplicateElement_copy [OF f, of "''b''"]
  have dc: "\<exists>c. elements (duplicateElement ''b'' ''a'' ?s) = elements ?s @ [c] \<and>
        c ''id'' = Some (JStr ''b'') \<and> c ''zIndex'' = Some (JNum 2) \<and>
        c ''x'' = Some (JNum 220) \<and> c ''y'' = Some (JNum 220) \<and>
        c ''width'' = ?e ''width'' \<and> c ''backgroundColor'' = Some (JStr ''#94a3b8'')"
  proof (elim exE conjE)
    fix c
    assume a: "elements (duplicateElement ''b'' ''a'' ?s) = elements ?s @ [c]"
      and i: "c ''id'' = Some (JStr ''b'')"
      and z: "c ''zIndex'' = Some (JNum (real (length (elements ?s) + 1)))"
      and kx: "\<forall>k. js_get ?e ''x'' = JNum (of_int k) \<and> \<bar>k + 20\<bar> < 2 ^ 53 \<longrightarrow>
                 c ''x'' = Some (JNum (of_int k + 20))"
      and ky: "\<forall>k. js_get ?e ''y'' = JNum (of_int k) \<and> \<bar>k + 20\<bar> < 2 ^ 53 \<longrightarrow>
                 c ''y'' = Some (JNum (of_int k + 20))"
      and o: "\<forall>k. k \<notin> {''id'', ''x'', ''y'', ''zIndex''} \<longrightarrow> c k = ?e k"
    have x: "c ''x'' = Some (JNum (of_int 200 + 20))"
      by (rule mp [OF spec [OF kx, of 200] conjI [OF v(1) b]])
    have y: "c ''y'' = Some (JNum (of_int 200 + 20))"
      by (rule mp [OF spec [OF ky, of 200] conjI [OF v(2) b]])
    from o have w: "c ''width'' = ?e ''width''" "c ''backgroundColor'' = ?e ''backgroundColor''"
      by simp_all
    from z have z2: "c ''zIndex'' = Some (JNum 2)" by simp
    from x y have xy: "c ''x'' = Some (JNum 220)" "c ''y'' = Some (JNum 220)" by simp_all
    from a i z2 xy w bg
    show "\<exists>c. elements (duplicateElement ''b'' ''a'' ?s) = elements ?s @ [c] \<and>
        c ''id'' = Some (JStr ''b'') \<and> c ''zIndex'' = Some (JNum 2) \<and>
        c ''x'' = Some (JNum 220) \<and> c ''y'' = Some (JNum 220) \<and>
        c ''width'' = ?e ''width'' \<and> c ''backgroundColor'' = Some (JStr ''#94a3b8'')"
      by (intro exI [of _ c] conjI) simp_all
  qed
  show ?thesis
    by (rule exI [of _ ?s], rule exI [of _ ?e]) (intro conjI r f v b dc)
qed

text \<open>
  The claim as stated fails on the \<open>zIndex\<close>: it is the element count plus one, which is
  not the maximum of the store once elements have been deleted. After three adds and the
  deletion of the first two elements, the copy of the remaining element (\<open>zIndex = 3\<close>)
  gets \<open>zIndex = 2\<close>. It also fails on a coordinate whose sum with 20 is not a double:
  the copy of an element at \<open>x = 2 ^ 60\<close> is at \<open>x = 2 ^ 60\<close>.
\<close>

theorem duplicateElement_zIndex_counterexample:
  "(\<exists>s. run T0 [AddElement ''a'' (JStr ''shape'') Map.empty,
       AddElement ''b'' (JStr ''shape'') Map.empty,
       AddElement ''c'' (JStr ''shape'') Map.empty,
       DeleteElement (Some ''a''), DeleteElement (Some ''b''),
       DuplicateElement ''d'' ''c''] startup = Inr s \<and>
     map (\<lambda>el. js_get el ''id'') (elements s) = [JStr ''c'', JStr ''d''] \<and>
     map (\<lambda>el. js_get el ''zIndex'') (elements s) = [JNum 3, JNum 2]) \<and>
   (\<exists>s. run T0 [AddElement ''a'' (JStr ''shape'') [''x'' \<mapsto> JNum 1152921504606846976],
       DuplicateElement ''b'' ''a''] startup = Inr s \<and>
     map (\<lambda>el. js_get el ''id'') (elements s) = [JStr ''a'', JStr ''b''] \<and>
     map (\<lambda>el. js_get el ''x'') (elements s) = [JNum 1152921504606846976, JNum 1152921504606846976])"
proof -
  have 1: "\<exists>s. run T0 [AddElement ''a'' (JStr ''shape'') Map.empty,
       AddElement ''b'' (JStr ''shape'') Map.empty,
       AddElement ''c'' (JStr ''shape'') Map.empty,
       DeleteElement (Some ''a''), DeleteElement (Some ''b''),
       DuplicateElement ''d'' ''c''] startup = Inr s \<and>
     map (\<lambda>el. js_get el ''id'') (elements s) = [JStr ''c'', JStr ''d''] \<and>
     map (\<lambda>el. js_get el ''zIndex'') (elements s) = [JNum 3, JNum 2]"
    by (simp add: startup_eq op_defs el_defs)
  let ?e = "newElement T0 ''a'' (JStr ''shape'') [''x'' \<mapsto> JNum 1152921504606846976] 0"
  let ?s = "addElement T0 ''a'' (JStr ''shape'') [''x'' \<mapsto> JNum 1152921504606846976] startup"
  have es: "elements ?s = [?e]"
    by (simp add: addElement_elements startup_eq)
  have i: "js_get ?e ''id'' = JStr ''a''" and x: "js_get ?e ''x'' = JNum 1152921504606846976"
    by (simp_all add: el_defs)
  from i have f: "find (\<lambda>el. strict_eq (js_get el ''id'') (JStr ''a'')) (elements ?s) = Some ?e"
    by (simp add: es strict_eq_def)
  let ?c = "copyOf ''b'' ?e (length (elements ?s))"
  have d: "elements (duplicateElement ''b'' ''a'' ?s) = [?e, ?c]"
    using duplicateElement_elements [OF f, of "''b''"] by (simp add: es)
  have "js_get ?c ''x'' = js_add20 (js_get ?e ''x'')"
    by (simp add: copyOf_def js_get_def)
  also have "\<dots> = fl64 (1152921504606846976 + 20)"
    by (simp only: x js_add20.simps)
  also have "\<dots> = JNum 1152921504606846976"
    by (rule fl64_absorbs_20)
  finally have cx: "js_get ?c ''x'' = JNum 1152921504606846976" .
  have ci: "js_get ?c ''id'' = JStr ''b''"
    by (simp add: copyOf_def js_get_def)
  have r: "run T0 [AddElement ''a'' (JStr ''shape'') [''x'' \<mapsto> JNum 1152921504606846976],
       DuplicateElement ''b'' ''a''] startup = Inr (duplicateElement ''b'' ''a'' ?s)"
    by simp
  have 2: "\<exists>s. run T0 [AddElement ''a'' (JStr ''shape'') [''x'' \<mapsto> JNum 1152921504606846976],
       DuplicateElement ''b'' ''a''] startup = Inr s \<and>
     map (\<lambda>el. js_get el ''id'') (elements s) = [JStr ''a'', JStr ''b''] \<and>
     map (\<lambda>el. js_get el ''x'') (elements s) = [JNum 1152921504606846976, JNum 1152921504606846976]"
    by (rule exI [of _ "duplicateElement ''b'' ''a'' ?s"]) (simp only: r d list.map i x cx ci simp_thms)
  from 1 2 show ?thesis by (rule conjI)
qed

section \<open>The type of an element\<close>

lemma stored_commit:
  assumes "set es \<subseteq> stored s \<union> X"
  shows "stored (addToHistory es (s\<lparr>elements := es\<rparr>)) \<subseteq> stored s \<union> X"
proof -
  have "set (js_slice0 (history s) (historyIndex s + 1)) \<subseteq> set (history s)"
    by (auto simp: js_slice0_def Let_def dest: in_set_takeD)
  then have "(\<Union>snap \<in> set (js_slice0 (history s) (historyIndex s + 1)). set snap) \<subseteq> stored s"
    by (auto simp: stored_def)
  with assms show ?thesis
    by (auto simp: stored_def addToHistory_def Let_def)
qed

lemma stored_selectedId [simp]: "stored (s\<lparr>selectedId := v\<rparr>) = stored s"
  by (simp add: stored_def)

lemma id_type_update:
  "updates ''id'' = None \<Longrightarrow> updates ''type'' = None \<Longrightarrow> id_type (el ++ updates) = id_type el"
  by (simp add: id_type_def js_get_def map_add_def)

lemma js_nth_in_set: "js_nth xs i = Some x \<Longrightarrow> x \<in> set xs"
  by (auto simp: js_nth_def split: if_splits)

lemma handleUndo_stored: "handleUndo b s = Inr s' \<Longrightarrow> stored s' \<subseteq> stored s"
  by (auto simp: handleUndo_def stored_def split: if_splits option.splits dest: js_nth_in_set)

lemma handleRedo_stored: "handleRedo b s = Inr s' \<Longrightarrow> stored s' \<subseteq> stored s"
  by (auto simp: handleRedo_def stored_def split: if_splits option.splits dest: js_nth_in_set)

lemma elements_stored: "set (elements s) \<subseteq> stored s"
  by (simp add: stored_def)

lemma step_stored:
  assumes "keeps_identity c" and "step T c s = Inr s'"
  shows "id_type ` stored s' \<subseteq> id_type ` stored s \<union> id_type ` set (creates T c s)"
proof (cases c)
  case (AddElement newId type payload)
  let ?e = "newElement T newId type payload (length (elements s))"
  have "set (elements s @ [?e]) \<subseteq> stored s \<union> {?e}"
    using elements_stored [of s] by auto
  from stored_commit [OF this] AddElement assms(2)
  have "stored s' \<subseteq> stored s \<union> set (creates T c s)"
    by (auto simp: addElement_def Let_def)
  then show ?thesis by blast
next
  case (UpdateElement ident updates)
  with assms have u: "updates ''id'' = None" "updates ''type'' = None"
    and s': "s' = updateElement ident updates s" by auto
  have "id_type ` set (elements s') \<subseteq> id_type ` set (elements s)"
    using id_type_update [OF u] by (auto simp: s' updateElement_def)
  moreover have "history s' = history s" by (simp add: s' updateElement_def)
  ultimately show ?thesis by (auto simp: stored_def)
next
  case (DeleteElement ident)
  with assms(2) have s': "s' = deleteElement ident s" by simp
  let ?t = "case ident of Some i \<Rightarrow> JStr i | None \<Rightarrow> selectedId s"
  let ?es = "filter (\<lambda>el. \<not> strict_eq (js_get el ''id'') ?t) (elements s)"
  have "set ?es \<subseteq> stored s \<union> {}"
    using elements_stored [of s] by auto
  from stored_commit [OF this]
  have "stored s' \<subseteq> stored s"
    by (simp add: s' deleteElement_def Let_def)
  then show ?thesis by blast
next
  case (DuplicateElement newId ident)
  show ?thesis
  proof (cases "find (\<lambda>el. strict_eq (js_get el ''id'') (JStr ident)) (elements s)")
    case None
    with DuplicateElement assms(2) show ?thesis by (simp add: duplicateElement_def)
  next
    case (Some src)
    let ?e = "copyOf newId src (length (elements s))"
    have "set (elements s @ [?e]) \<subseteq> stored s \<union> {?e}"
      using elements_stored [of s] by auto
    from stored_commit [OF this] DuplicateElement assms(2) Some
    have "stored s' \<subseteq> stored s \<union> set (creates T c s)"
      by (auto simp: duplicateElement_def Let_def)
    then show ?thesis by blast
  qed
next
  case (Undo b)
  with assms(2) have "stored s' \<subseteq> stored s"
    by (simp add: handleUndo_stored)
  then show ?thesis by blast
next
  case (Redo b)
  with assms(2) have "stored s' \<subseteq> stored s"
    by (simp add: handleRedo_stored)
  then show ?thesis by blast
next
  case (SetSelected sel)
  with assms(2) show ?thesis by auto
qed

lemma run_stored:
  "list_all keeps_identity cs \<Longrightarrow> run T cs s = Inr s' \<Longrightarrow>
     id_type ` stored s' \<subseteq> id_type ` stored s \<union> id_type ` set (created T cs s)"
proof (induction cs arbitrary: s)
  case Nil
  then show ?case by simp
next
  case (Cons c cs)
  from Cons.prems(2) obtain s1 where s1: "step T c s = Inr s1" "run T cs s1 = Inr s'"
    by (auto split: sum.splits)
  from Cons.prems(1) have k: "keeps_identity c" "list_all keeps_identity cs" by simp_all
  have c: "set (created T (c # cs) s) = set (creates T c s) \<union> set (created T cs s1)"
    using s1(1) by simp
  from Cons.IH [OF k(2) s1(2)] step_stored [OF k(1) s1(1)]
  show ?case unfolding c image_Un by blast
qed

lemma stored_startup: "id_type ` stored startup = {}"
  by (simp add: startup_eq stored_def)

text \<open>
  Claim C8, as the code has it. Along every run from startup in which no update writes
  \<open>id\<close> or \<open>type\<close>, each element of the store has the id and the type of an element as
  it was created in that run by \<^verbatim>\<open>addElement\<close> or \<^verbatim>\<open>duplicateElement\<close>; and
  \<^verbatim>\<open>updateElement\<close> with no \<open>type\<close> among its fields leaves the type of every element as
  it is.
\<close>

theorem element_type_stable:
  assumes "list_all keeps_identity cs" and "run T cs startup = Inr s" and "el \<in> set (elements s)"
  shows "(\<exists>e0 \<in> set (created T cs startup).
            js_get el ''id'' = js_get e0 ''id'' \<and> js_get el ''type'' = js_get e0 ''type'') \<and>
         (\<forall>ident updates. updates ''type'' = None \<longrightarrow>
            map (\<lambda>e. js_get e ''type'') (elements (updateElement ident updates s)) =
            map (\<lambda>e. js_get e ''type'') (elements s))"
proof -
  from assms(3) have "id_type el \<in> id_type ` stored s" by (simp add: stored_def)
  with run_stored [OF assms(1,2)] stored_startup
  have "id_type el \<in> id_type ` set (created T cs startup)" by auto
  then have "\<exists>e0 \<in> set (created T cs startup).
      js_get el ''id'' = js_get e0 ''id'' \<and> js_get el ''type'' = js_get e0 ''type''"
    by (auto simp: id_type_def)
  moreover have "updates ''type'' = None \<longrightarrow>
      map (\<lambda>e. js_get e ''type'') (elements (updateElement ident updates s)) =
      map (\<lambda>e. js_get e ''type'') (elements s)" for ident updates
    by (simp add: updateElement_def js_get_def map_add_def)
  ultimately show ?thesis by blast
qed

theorem element_type_stable_witness:
  "list_all keeps_identity [AddElement ''a'' (JStr ''shape'') Map.empty,
       UpdateElement ''a'' [''x'' \<mapsto> JNum 300], DuplicateElement ''b'' ''a''] \<and>
   (\<exists>s el. run T0 [AddElement ''a'' (JStr ''shape'') Map.empty,
       UpdateElement ''a'' [''x'' \<mapsto> JNum 300], DuplicateElement ''b'' ''a''] startup = Inr s \<and>
     el \<in> set (elements s) \<and>
     (\<exists>e0 \<in> set (created T0 [AddElement ''a'' (JStr ''shape'') Map.empty,
       UpdateElement ''a'' [''x'' \<mapsto> JNum 300], DuplicateElement ''b'' ''a''] startup).
           js_get el ''id'' = js_get e0 ''id'' \<and> js_get el ''type'' = js_get e0 ''type''))"
proof -
  let ?cs = "[AddElement ''a'' (JStr ''shape'') Map.empty,
       UpdateElement ''a'' [''x'' \<mapsto> JNum 300], DuplicateElement ''b'' ''a'']"
  have k: "list_all keeps_identity ?cs" by simp
  from run_startup [of T0 ?cs] obtain s where s: "run T0 ?cs startup = Inr s" by blast
  have "elements s \<noteq> []" using s
    by (auto simp: startup_eq op_defs split: option.splits)
  then obtain el where el: "el \<in> set (elements s)" by (cases "elements s") auto
  from element_type_stable [OF k s el] k s el show ?thesis by blast
qed

text \<open>
  The claim as stated fails for an update that carries \<open>type\<close>: the spread
  \<^verbatim>\<open>{ ...el, ...updates }\<close> replaces it.
\<close>

theorem updateElement_type_counterexample:
  "map (\<lambda>el. js_get el ''type'') (elements (addElement T0 ''a'' (JStr ''shape'') Map.empty startup))
     = [JStr ''shape''] \<and>
   map (\<lambda>el. js_get el ''type'')
     (elements (updateElement ''a'' [''type'' \<mapsto> JStr ''text'']
        (addElement T0 ''a'' (JStr ''shape'') Map.empty startup))) = [JStr ''text'']"
  by (simp add: addElement_elements updateElement_def el_defs startup_eq)

section \<open>The selection invariant\<close>







lemma selection_valid_clear: "selection_valid (s\<lparr>selectedId := JNull\<rparr>)"
  by (simp add: selection_valid_def)
















section \<open>Operations on an id that is not in the store\<close>

lemma updateElement_unknown_id:
  "\<forall>el \<in> set (elements s). \<not> strict_eq (js_get el ''id'') (JStr ident) \<Longrightarrow>
     updateElement ident updates s = s"
  by (simp add: updateElement_def map_idI)

lemma duplicateElement_unknown_id:
  "\<forall>el \<in> set (elements s). \<not> strict_eq (js_get el ''id'') (JStr ident) \<Longrightarrow>
     duplicateElement newId ident s = s"
proof -
  assume "\<forall>el \<in> set (elements s). \<not> strict_eq (js_get el ''id'') (JStr ident)"
  then have "find (\<lambda>el. strict_eq (js_get el ''id'') (JStr ident)) (elements s) = None"
    by (simp add: find_None_iff)
  then show ?thesis by (simp add: duplicateElement_def)
qed

text \<open>
  Claim C2. \<^verbatim>\<open>updateElement\<close> and \<^verbatim>\<open>duplicateElement\<close> leave the state as it is for an
  id no element has (the two lemmas above). \<^verbatim>\<open>deleteElement\<close> does not: for any
  non-empty id it calls \<^verbatim>\<open>addToHistory\<close>. After an add and an undo, deleting the id
  \<open>ghost\<close>, which no element has, replaces the snapshot a redo would restore by a second
  empty one and moves the cursor onto it.
\<close>

theorem deleteElement_unknown_id_commits:
  "\<exists>s. run T0 [AddElement ''a'' (JStr ''shape'') Map.empty, Undo True] startup = Inr s \<and>
       elements s = [] \<and> length (history s) = 2 \<and> historyIndex s = 0 \<and>
       handleRedo True s \<noteq> Inr s \<and>
       elements (deleteElement (Some ''ghost'') s) = [] \<and>
       history (deleteElement (Some ''ghost'') s) = [[], []] \<and>
       historyIndex (deleteElement (Some ''ghost'') s) = 1 \<and>
       handleRedo True (deleteElement (Some ''ghost'') s) = Inr (deleteElement (Some ''ghost'') s)"
  by (simp add: startup_eq op_defs)

section \<open>Type-specific defaults\<close>

lemma newElement_payload_kept:
  assumes "payload k = Some v" and "k \<notin> {''backgroundColor'', ''shapeType'', ''color''}"
  shows "newElement T newId type payload n k = Some v"
  using assms
  by (simp add: newElement_def textDefaults_def shapeDefaults_def newElement0_def map_add_def)

text \<open>
  Claim C3, as the code has it. The element \<^verbatim>\<open>addElement\<close> appends keeps the payload's
  value of every property other than \<open>backgroundColor\<close>, \<open>shapeType\<close> and \<open>color\<close>. Its
  \<open>color\<close> is the default exactly when the type is text and \<^verbatim>\<open>!payload.color\<close> holds
  (the property is absent or falsy), and the payload's otherwise. Its \<open>backgroundColor\<close>
  is the default exactly when the type is shape and \<^verbatim>\<open>!payload.backgroundColor\<close> holds,
  and the payload's otherwise; in the first case a payload without \<open>shapeType\<close> gets the
  rectangle, in the second a \<open>shapeType\<close> of the payload is kept.
\<close>

theorem addElement_defaults:
  "\<exists>el. elements (addElement T newId type payload s) = elements s @ [el] \<and>
     (\<forall>k v. payload k = Some v \<and> k \<notin> {''backgroundColor'', ''shapeType'', ''color''} \<longrightarrow>
        el k = Some v) \<and>
     (if strict_eq type (ElementType_TEXT T) \<and> \<not> truthy (js_get payload ''color'')
      then el ''color'' = Some (JStr ''#1e293b'')
      else el ''color'' = payload ''color'') \<and>
     (if strict_eq type (ElementType_SHAPE T) \<and> \<not> truthy (js_get payload ''backgroundColor'')
      then el ''backgroundColor'' = Some (JStr ''#94a3b8'') \<and>
           (payload ''shapeType'' = None \<longrightarrow> el ''shapeType'' = Some (ShapeType_RECTANGLE T))
      else el ''backgroundColor'' = payload ''backgroundColor'' \<and>
           (\<forall>w. payload ''shapeType'' = Some w \<longrightarrow> el ''shapeType'' = Some w))"
proof -
  let ?el = "newElement T newId type payload (length (elements s))"
  have 1: "\<forall>k v. payload k = Some v \<and> k \<notin> {''backgroundColor'', ''shapeType'', ''color''} \<longrightarrow>
        ?el k = Some v"
    using newElement_payload_kept by blast
  have 2: "if strict_eq type (ElementType_TEXT T) \<and> \<not> truthy (js_get payload ''color'')
      then ?el ''color'' = Some (JStr ''#1e293b'')
      else ?el ''color'' = payload ''color''"
    by (simp add: newElement_def textDefaults_def shapeDefaults_def newElement0_def map_add_def
        split: option.splits)
  have 3: "if strict_eq type (ElementType_SHAPE T) \<and> \<not> truthy (js_get payload ''backgroundColor'')
      then ?el ''backgroundColor'' = Some (JStr ''#94a3b8'') \<and>
           (payload ''shapeType'' = None \<longrightarrow> ?el ''shapeType'' = Some (ShapeType_RECTANGLE T))
      else ?el ''backgroundColor'' = payload ''backgroundColor'' \<and>
           (\<forall>w. payload ''shapeType'' = Some w \<longrightarrow> ?el ''shapeType'' = Some w)"
    by (simp add: newElement_def textDefaults_def shapeDefaults_def newElement0_def map_add_def
        split: option.splits)
  from 1 2 3 addElement_elements [of T newId type payload s] show ?thesis by blast
qed

theorem addElement_defaults_witness:
  "(\<exists>el. elements (addElement T0 ''a'' (ElementType_TEXT T0) [''content'' \<mapsto> JStr ''hi''] startup)
        = elements startup @ [el] \<and>
      el ''content'' = Some (JStr ''hi'') \<and> el ''color'' = Some (JStr ''#1e293b'')) \<and>
   (\<exists>el. elements (addElement T0 ''a'' (ElementType_TEXT T0) [''color'' \<mapsto> JStr ''#ff0000''] startup)
        = elements startup @ [el] \<and>
      el ''color'' = Some (JStr ''#ff0000'')) \<and>
   (\<exists>el. elements (addElement T0 ''a'' (ElementType_SHAPE T0) Map.empty startup)
        = elements startup @ [el] \<and>
      el ''backgroundColor'' = Some (JStr ''#94a3b8'') \<and>
      el ''shapeType'' = Some (ShapeType_RECTANGLE T0)) \<and>
   (\<exists>el. elements (addElement T0 ''a'' (ElementType_SHAPE T0)
          [''backgroundColor'' \<mapsto> JStr ''#ffffff'', ''shapeType'' \<mapsto> JStr ''circle''] startup)
        = elements startup @ [el] \<and>
      el ''backgroundColor'' = Some (JStr ''#ffffff'') \<and>
      el ''shapeType'' = Some (JStr ''circle''))"
proof -
  have a: "strict_eq (ElementType_TEXT T0) (ElementType_TEXT T0)"
      "\<not> strict_eq (ElementType_TEXT T0) (ElementType_SHAPE T0)"
      "strict_eq (ElementType_SHAPE T0) (ElementType_SHAPE T0)"
      "\<not> strict_eq (ElementType_SHAPE T0) (ElementType_TEXT T0)"
    by (simp_all add: strict_eq_def T0_def)
  from addElement_defaults [of T0 "''a''" "ElementType_TEXT T0" "[''content'' \<mapsto> JStr ''hi'']" startup]
  have 1: "\<exists>el. elements (addElement T0 ''a'' (ElementType_TEXT T0) [''content'' \<mapsto> JStr ''hi''] startup)
        = elements startup @ [el] \<and>
      el ''content'' = Some (JStr ''hi'') \<and> el ''color'' = Some (JStr ''#1e293b'')"
    using a by (auto simp: js_get_def)
  from addElement_defaults [of T0 "''a''" "ElementType_TEXT T0" "[''color'' \<mapsto> JStr ''#ff0000'']" startup]
  have 2: "\<exists>el. elements (addElement T0 ''a'' (ElementType_TEXT T0) [''color'' \<mapsto> JStr ''#ff0000''] startup)
        = elements startup @ [el] \<and>
      el ''color'' = Some (JStr ''#ff0000'')"
    using a by (auto simp: js_get_def)
  from addElement_defaults [of T0 "''a''" "ElementType_SHAPE T0" Map.empty startup]
  have 3: "\<exists>el. elements (addElement T0 ''a'' (ElementType_SHAPE T0) Map.empty startup)
        = elements startup @ [el] \<and>
      el ''backgroundColor'' = Some (JStr ''#94a3b8'') \<and>
      el ''shapeType'' = Some (ShapeType_RECTANGLE T0)"
    using a by (auto simp: js_get_def)
  from addElement_defaults [of T0 "''a''" "ElementType_SHAPE T0"
      "[''backgroundColor'' \<mapsto> JStr ''#ffffff'', ''shapeType'' \<mapsto> JStr ''circle'']" startup]
  have 4: "\<exists>el. elements (addElement T0 ''a'' (ElementType_SHAPE T0)
          [''backgroundColor'' \<mapsto> JStr ''#ffffff'', ''shapeType'' \<mapsto> JStr ''circle''] startup)
        = elements startup @ [el] \<and>
      el ''backgroundColor'' = Some (JStr ''#ffffff'') \<and>
      el ''shapeType'' = Some (JStr ''circle'')"
    using a by (auto simp: js_get_def)
  from 1 2 3 4 show ?thesis by blast
qed

text \<open>
  The claim as stated fails in two ways. The tests are tests of truthiness, so a text
  payload whose \<open>color\<close> is the empty string has it replaced by the default. And
  \<open>shapeType\<close> is assigned together with \<open>backgroundColor\<close>, under the one test
  \<^verbatim>\<open>!payload.backgroundColor\<close>: a shape payload that gives \<open>shapeType\<close> and no
  \<open>backgroundColor\<close> gets the rectangle in place of the shape type it asked for.
\<close>

theorem addElement_defaults_counterexample:
  "[''color'' \<mapsto> JStr ''''] ''color'' = Some (JStr '''') \<and>
   last (elements (addElement T0 ''a'' (ElementType_TEXT T0) [''color'' \<mapsto> JStr ''''] startup))
     ''color'' = Some (JStr ''#1e293b'') \<and>
   [''shapeType'' \<mapsto> JStr ''circle''] ''shapeType'' = Some (JStr ''circle'') \<and>
   last (elements (addElement T0 ''a'' (ElementType_SHAPE T0) [''shapeType'' \<mapsto> JStr ''circle'']
      startup)) ''shapeType'' = Some (JStr ''rectangle'')"
  by (simp add: addElement_def Let_def el_defs)

end
